theory Spec2Isabelle
  imports Main
begin

section \<open>Python values, exceptions and effects\<close>

text \<open>
  The news aggregator is one Python file, \<^verbatim>\<open>src/news_aggregator.py\<close>. Its functions talk
  to three outside parties: the news API (through \<^verbatim>\<open>requests\<close>), the chat-completion
  service, and the file system. The embedding makes each of them a field of a record
  \<open>env\<close> that says what the outside call returns or raises; every function of the
  program returns the list of effects it performed (log entries, console lines, HTTP
  requests, chat calls, file writes) together with its result, and an exception is a
  value \<open>Inl e\<close> of a sum type.

  A decoded JSON body is a Python object. \<open>pyval\<close> has the shapes \<^verbatim>\<open>json\<close> produces; a
  dict is an association list read with \<open>map_of\<close> (every dict has such a list, with its
  keys in insertion order). Numbers with a fraction or an exponent (Python floats) are
  not represented; the program only tests numbers for truth.
\<close>

datatype pyval =
    PNone
  | PBool bool
  | PInt int
  | PStr string
  | PList "pyval list"
  | PDict "(string \<times> pyval) list"

datatype exc_class =
  RequestException | IOError | KeyError | TypeError | AttributeError | IndexError
  | ValueError | OtherException

text \<open>An exception object: its class and the text \<^verbatim>\<open>str(e)\<close> gives.\<close>

datatype exn = Exn exc_class string

fun exc_str :: "exn \<Rightarrow> string" where
  "exc_str (Exn c m) = m"

text \<open>
  \<^verbatim>\<open>except requests.RequestException\<close> and \<^verbatim>\<open>except IOError\<close>. In \<^verbatim>\<open>requests\<close>,
  \<^verbatim>\<open>RequestException\<close> is declared as a subclass of \<^verbatim>\<open>IOError\<close>, so the second clause
  matches both classes. \<^verbatim>\<open>except Exception\<close> matches every value of \<open>exn\<close>: the
  signals that are not \<^verbatim>\<open>Exception\<close>s (a keyboard interrupt) are modelled apart, in
  the scheduler loop.
\<close>

fun is_RequestException :: "exn \<Rightarrow> bool" where
  "is_RequestException (Exn c m) = (c = RequestException)"

fun is_IOError :: "exn \<Rightarrow> bool" where
  "is_IOError (Exn c m) = (c = IOError \<or> c = RequestException)"

definition nl :: string where
  "nl = ''\<newline>''"

definition quoted :: "string \<Rightarrow> string" where
  "quoted s = [CHR 0x27] @ s @ [CHR 0x27]"

fun type_name :: "pyval \<Rightarrow> string" where
  "type_name PNone = ''NoneType''"
| "type_name (PBool b) = ''bool''"
| "type_name (PInt i) = ''int''"
| "type_name (PStr s) = ''str''"
| "type_name (PList xs) = ''list''"
| "type_name (PDict kvs) = ''dict''"

text \<open>Truth of an object, as \<^verbatim>\<open>if x\<close> and \<^verbatim>\<open>x and y\<close> test it.\<close>

fun truthy :: "pyval \<Rightarrow> bool" where
  "truthy PNone = False"
| "truthy (PBool b) = b"
| "truthy (PInt i) = (i \<noteq> 0)"
| "truthy (PStr s) = (s \<noteq> [])"
| "truthy (PList xs) = (xs \<noteq> [])"
| "truthy (PDict kvs) = (kvs \<noteq> [])"

text \<open>\<^verbatim>\<open>obj.get(key, default)\<close>: only a dict has the method.\<close>

fun py_get :: "pyval \<Rightarrow> string \<Rightarrow> pyval \<Rightarrow> exn + pyval" where
  "py_get (PDict kvs) k d = Inr (case map_of kvs k of None \<Rightarrow> d | Some v \<Rightarrow> v)"
| "py_get v k d =
     Inl (Exn AttributeError
       (quoted (type_name v) @ '' object has no attribute '' @ quoted ''get''))"

text \<open>
  \<^verbatim>\<open>obj[key]\<close> with a string key: a missing key of a dict raises \<^verbatim>\<open>KeyError\<close>, and
  every other object raises \<^verbatim>\<open>TypeError\<close> (texts as CPython 3.11 words them).
\<close>

fun py_getitem :: "pyval \<Rightarrow> string \<Rightarrow> exn + pyval" where
  "py_getitem (PDict kvs) k =
     (case map_of kvs k of None \<Rightarrow> Inl (Exn KeyError (quoted k)) | Some v \<Rightarrow> Inr v)"
| "py_getitem (PStr s) k =
     Inl (Exn TypeError (''string indices must be integers, not '' @ quoted ''str''))"
| "py_getitem (PList xs) k =
     Inl (Exn TypeError ''list indices must be integers or slices, not str'')"
| "py_getitem v k =
     Inl (Exn TypeError (quoted (type_name v) @ '' object is not subscriptable''))"

text \<open>
  The items a \<^verbatim>\<open>for\<close> loop visits: the elements of a list, the characters of a string,
  the keys of a dict; nothing else can be iterated.
\<close>

fun py_iter :: "pyval \<Rightarrow> exn + pyval list" where
  "py_iter (PList xs) = Inr xs"
| "py_iter (PStr s) = Inr (map (\<lambda>c. PStr [c]) s)"
| "py_iter (PDict kvs) = Inr (map (\<lambda>kv. PStr (fst kv)) kvs)"
| "py_iter v = Inl (Exn TypeError (quoted (type_name v) @ '' object is not iterable''))"

definition bind_exn :: "exn + 'a \<Rightarrow> ('a \<Rightarrow> exn + 'b) \<Rightarrow> exn + 'b" where
  "bind_exn r f = (case r of Inl e \<Rightarrow> Inl e | Inr x \<Rightarrow> f x)"

text \<open>\<^verbatim>\<open>xs[:n]\<close> for an int \<open>n\<close>: a negative \<open>n\<close> counts from the end.\<close>

definition py_slice_to :: "'a list \<Rightarrow> int \<Rightarrow> 'a list" where
  "py_slice_to xs n =
     (if 0 \<le> n then take (nat n) xs else take (length xs - nat (- n)) xs)"

fun show_nat :: "nat \<Rightarrow> string" where
  "show_nat n =
     (if n < 10 then [''0123456789'' ! n]
      else show_nat (n div 10) @ [''0123456789'' ! (n mod 10)])"

declare show_nat.simps [simp del]

definition show_int :: "int \<Rightarrow> string" where
  "show_int i = (if i < 0 then ''-'' @ show_nat (nat (- i)) else show_nat (nat i))"

subsection \<open>Dates\<close>

text \<open>
  A reading of \<^verbatim>\<open>datetime.now()\<close>, and the two \<^verbatim>\<open>strftime\<close> formats the program uses:
  \<^verbatim>\<open>%B %d, %Y\<close> and \<^verbatim>\<open>%Y%m%d_%H%M%S\<close>. A \<^verbatim>\<open>datetime\<close> has its month in 1..12; the
  month name of any other number is written out as the empty text. Years are printed
  as they are (four digits from the year 1000 on).
\<close>

record datetime =
  year :: nat
  month :: nat
  day :: nat
  hour :: nat
  minute :: nat
  second :: nat

definition month_names :: "string list" where
  "month_names =
     [''January'', ''February'', ''March'', ''April'', ''May'', ''June'', ''July'',
      ''August'', ''September'', ''October'', ''November'', ''December'']"

definition month_name :: "nat \<Rightarrow> string" where
  "month_name m = (if 1 \<le> m \<and> m \<le> 12 then month_names ! (m - 1) else [])"

definition pad2 :: "nat \<Rightarrow> string" where
  "pad2 n = (if n < 10 then ''0'' @ show_nat n else show_nat n)"

definition strftime_long :: "datetime \<Rightarrow> string" where
  "strftime_long t = month_name (month t) @ '' '' @ pad2 (day t) @ '', '' @ show_nat (year t)"

definition strftime_stamp :: "datetime \<Rightarrow> string" where
  "strftime_stamp t =
     show_nat (year t) @ pad2 (month t) @ pad2 (day t) @ ''_''
       @ pad2 (hour t) @ pad2 (minute t) @ pad2 (second t)"

subsection \<open>Data model, outside world and effects\<close>

text \<open>
  The dataclass \<^verbatim>\<open>NewsArticle\<close>. Its fields are annotated \<^verbatim>\<open>str\<close>, but a dataclass
  does not check its fields: each holds whatever object the JSON body had.
\<close>

record NewsArticle =
  title :: pyval
  description :: pyval
  url :: pyval
  published_at :: pyval
  source :: pyval

record NewsAggregator =
  news_api_key :: "string option"
  openai_api_key :: "string option"
  news_base_url :: string
  categories :: "string list"

text \<open>The process environment, as \<^verbatim>\<open>os.getenv\<close> reads it.\<close>

record config =
  NEWS_API_KEY :: "string option"
  OPENAI_API_KEY :: "string option"

record http_request =
  req_url :: string
  apiKey :: string
  category :: string
  language :: string
  pageSize :: int
  timeout :: nat

record chat_request =
  model :: string
  messages :: "(string \<times> string) list"
  max_tokens :: nat
  temperature :: string

text \<open>
  The outside world of one pipeline run.
  \<^item> \<open>requests_get r\<close>: what lines 77 to 80 give for the request \<open>r\<close>
    (\<^verbatim>\<open>requests.get\<close>, \<^verbatim>\<open>raise_for_status\<close>, \<^verbatim>\<open>response.json()\<close>): the decoded body,
    or the exception one of the three calls raised.
  \<^item> \<open>chat_create r\<close>: the chat completion's answer, as the message content of each of
    its choices (\<open>None\<close> for a choice without content), or the exception raised.
  \<^item> \<open>file_write name text\<close>: the exception \<^verbatim>\<open>open\<close> or \<^verbatim>\<open>write\<close> raised, if any.
  \<^item> \<open>now_prompt\<close>, \<open>now_fallback\<close>, \<open>now_save\<close>: the readings of \<^verbatim>\<open>datetime.now()\<close>
    at lines 143, 171 and 182.
  \<^item> \<open>py_repr\<close>: the text \<^verbatim>\<open>str()\<close> gives for a list or a dict.
\<close>

record env =
  requests_get :: "http_request \<Rightarrow> exn + pyval"
  chat_create :: "chat_request \<Rightarrow> exn + string option list"
  file_write :: "string \<Rightarrow> string \<Rightarrow> exn option"
  now_prompt :: datetime
  now_fallback :: datetime
  now_save :: datetime
  py_repr :: "pyval \<Rightarrow> string"

datatype level = INFO | WARNING | ERROR

datatype event =
    Log level string
  | Print string
  | HttpGet http_request
  | Sleep nat
  | ChatCreate chat_request
  | FileWrite string string

text \<open>\<^verbatim>\<open>not key\<close> is false exactly for a key that is set and not empty.\<close>

fun key_set :: "string option \<Rightarrow> bool" where
  "key_set None = False"
| "key_set (Some s) = (s \<noteq> [])"

text \<open>What an f-string prints for a value: \<^verbatim>\<open>str(v)\<close>.\<close>

fun py_str :: "env \<Rightarrow> pyval \<Rightarrow> string" where
  "py_str w (PStr s) = s"
| "py_str w PNone = ''None''"
| "py_str w (PBool b) = (if b then ''True'' else ''False'')"
| "py_str w (PInt i) = show_int i"
| "py_str w v = py_repr w v"

section \<open>The article source adapter\<close>

definition get_mock_articles :: "NewsArticle list" where
  "get_mock_articles =
     [\<lparr>title = PStr ''Tech Giants Report Strong Q3 Earnings'',
       description =
         PStr ''Major technology companies exceeded expectations in their quarterly reports.'',
       url = PStr ''https://example.com/tech-earnings'',
       published_at = PStr ''2024-01-15T10:00:00Z'',
       source = PStr ''TechNews''\<rparr>,
      \<lparr>title = PStr ''Global Markets Show Positive Momentum'',
       description =
         PStr ''Stock markets worldwide continue upward trend amid economic recovery.'',
       url = PStr ''https://example.com/markets'',
       published_at = PStr ''2024-01-15T09:30:00Z'',
       source = PStr ''FinanceDaily''\<rparr>]"

text \<open>
  Lines 83 to 90, for one element of the \<^verbatim>\<open>articles\<close> array: \<open>Inr None\<close> when the
  element is skipped, \<open>Inr (Some a)\<close> when \<open>a\<close> is appended, \<open>Inl e\<close> when building it
  raises. The keyword arguments are evaluated from left to right.
\<close>

definition article_entry :: "pyval \<Rightarrow> exn + NewsArticle option" where
  "article_entry article =
     bind_exn (py_get article ''title'' PNone) (\<lambda>t.
       if \<not> truthy t then Inr None
       else bind_exn (py_get article ''description'' PNone) (\<lambda>d.
         if \<not> truthy d then Inr None
         else
           bind_exn (py_getitem article ''title'') (\<lambda>v1.
           bind_exn (py_getitem article ''description'') (\<lambda>v2.
           bind_exn (py_getitem article ''url'') (\<lambda>v3.
           bind_exn (py_getitem article ''publishedAt'') (\<lambda>v4.
           bind_exn (py_getitem article ''source'') (\<lambda>src.
           bind_exn (py_getitem src ''name'') (\<lambda>v5.
             Inr (Some \<lparr>title = v1, description = v2, url = v3,
                        published_at = v4, source = v5\<rparr>)))))))))"

text \<open>The inner loop (lines 82 to 90) over the items, appending to \<open>articles\<close>.\<close>

fun append_articles :: "pyval list \<Rightarrow> NewsArticle list \<Rightarrow> exn + NewsArticle list" where
  "append_articles [] articles = Inr articles"
| "append_articles (a # rest) articles =
     (case article_entry a of
        Inl e \<Rightarrow> Inl e
      | Inr None \<Rightarrow> append_articles rest articles
      | Inr (Some n) \<Rightarrow> append_articles rest (articles @ [n]))"

definition category_request :: "NewsAggregator \<Rightarrow> string \<Rightarrow> int \<Rightarrow> string \<Rightarrow> http_request" where
  "category_request self key limit c =
     \<lparr>req_url = news_base_url self @ ''/top-headlines'',
      apiKey = key,
      category = c,
      language = ''en'',
      pageSize = limit div int (length (categories self)),
      timeout = 10\<rparr>"

text \<open>
  One round of the loop over the categories (lines 69 to 92): the request, the body's
  articles appended to \<open>articles\<close>, and the pause of a tenth of a second.
\<close>

definition fetch_category ::
  "env \<Rightarrow> NewsAggregator \<Rightarrow> string \<Rightarrow> int \<Rightarrow> string \<Rightarrow> NewsArticle list
     \<Rightarrow> event list \<times> (exn + NewsArticle list)" where
  "fetch_category w self key limit c articles =
     (let req = category_request self key limit c in
      case requests_get w req of
        Inl e \<Rightarrow> ([HttpGet req], Inl e)
      | Inr data \<Rightarrow>
          (case bind_exn (py_get data ''articles'' (PList [])) (\<lambda>v.
                  bind_exn (py_iter v) (\<lambda>items. append_articles items articles)) of
             Inl e \<Rightarrow> ([HttpGet req], Inl e)
           | Inr articles' \<Rightarrow> ([HttpGet req, Sleep 100], Inr articles')))"

fun fetch_loop ::
  "env \<Rightarrow> NewsAggregator \<Rightarrow> string \<Rightarrow> int \<Rightarrow> string list \<Rightarrow> NewsArticle list
     \<Rightarrow> event list \<times> (exn + NewsArticle list)" where
  "fetch_loop w self key limit [] articles = ([], Inr articles)"
| "fetch_loop w self key limit (c # cs) articles =
     (case fetch_category w self key limit c articles of
        (tr, Inl e) \<Rightarrow> (tr, Inl e)
      | (tr, Inr articles') \<Rightarrow>
          (case fetch_loop w self key limit cs articles' of (tr', r) \<Rightarrow> (tr @ tr', r)))"

text \<open>
  \<^verbatim>\<open>fetch_news_articles\<close> (lines 59 to 98). Without a key the mock articles are returned
  at once. Otherwise the loop runs inside \<^verbatim>\<open>try\<close>: a \<^verbatim>\<open>RequestException\<close> is logged
  and answered with the mock articles, any other exception leaves the function, and a
  loop that ends returns \<^verbatim>\<open>articles[:limit]\<close>.
\<close>

definition fetch_news_articles ::
  "env \<Rightarrow> NewsAggregator \<Rightarrow> int \<Rightarrow> event list \<times> (exn + NewsArticle list)" where
  "fetch_news_articles w self limit =
     (case news_api_key self of
        None \<Rightarrow> ([], Inr get_mock_articles)
      | Some key \<Rightarrow>
          if key = [] then ([], Inr get_mock_articles)
          else
            (case fetch_loop w self key limit (categories self) [] of
               (tr, Inl e) \<Rightarrow>
                 if is_RequestException e
                 then (tr @ [Log ERROR (''Error fetching news: '' @ exc_str e)],
                       Inr get_mock_articles)
                 else (tr, Inl e)
             | (tr, Inr articles) \<Rightarrow> (tr, Inr (py_slice_to articles limit))))"

section \<open>The summarizer\<close>

fun py_join :: "string \<Rightarrow> string list \<Rightarrow> string" where
  "py_join sep [] = []"
| "py_join sep [x] = x"
| "py_join sep (x # y # ys) = x @ sep @ py_join sep (y # ys)"

text \<open>
  \<^verbatim>\<open>str.strip()\<close>: white space is removed at both ends (the ASCII white space
  characters; a string is a list of bytes here).
\<close>

definition is_space :: "char \<Rightarrow> bool" where
  "is_space c =
     (c \<in> set [CHR 0x09, CHR 0x0A, CHR 0x0B, CHR 0x0C, CHR 0x0D,
                CHR 0x1C, CHR 0x1D, CHR 0x1E, CHR 0x1F, CHR 0x20])"

definition py_strip :: "string \<Rightarrow> string" where
  "py_strip s = rev (dropWhile is_space (rev (dropWhile is_space s)))"

definition article_text :: "env \<Rightarrow> NewsArticle \<Rightarrow> string" where
  "article_text w a =
     ''Title: '' @ py_str w (title a) @ nl
       @ ''Description: '' @ py_str w (description a) @ nl
       @ ''Source: '' @ py_str w (source a) @ nl
       @ ''Published: '' @ py_str w (published_at a)"

definition indent :: string where
  "indent = ''        ''"

text \<open>The prompt of lines 134 to 150, a triple-quoted f-string indented by eight blanks.\<close>

definition prompt_text :: "env \<Rightarrow> NewsArticle list \<Rightarrow> string" where
  "prompt_text w articles =
     nl @ indent
       @ ''Based on the following news articles, create a concise \"Top 10 News\" summary. ''
       @ nl @ indent
       @ ''Select the 10 most important and diverse stories, and present them in a clear, ''
       @ nl @ indent @ ''numbered format with brief descriptions.''
       @ nl @ indent
       @ nl @ indent @ ''News Articles:''
       @ nl @ indent @ py_join (nl @ nl) (map (article_text w) articles)
       @ nl @ indent
       @ nl @ indent @ ''Format your response as:''
       @ nl @ indent @ ''TOP 10 NEWS - '' @ strftime_long (now_prompt w)
       @ nl @ indent
       @ nl @ indent @ ''1. [Brief headline] - [Concise summary in 1-2 sentences]''
       @ nl @ indent @ ''2. [Brief headline] - [Concise summary in 1-2 sentences]''
       @ nl @ indent @ ''...and so on''
       @ nl @ indent
       @ nl @ indent @ ''Focus on the most newsworthy and impactful stories.''
       @ nl @ indent"

definition summary_request :: "string \<Rightarrow> chat_request" where
  "summary_request prompt =
     \<lparr>model = ''gpt-3.5-turbo'',
      messages =
        [(''system'',
          ''You are a professional news editor who creates concise, informative news summaries.''),
         (''user'', prompt)],
      max_tokens = 1500,
      temperature = ''0.7''\<rparr>"

text \<open>
  The body of the \<^verbatim>\<open>try\<close> (lines 153 to 163): the call, then
  \<^verbatim>\<open>response.choices[0].message.content.strip()\<close>, which raises on an answer without
  choices and on a first choice without content.
\<close>

definition chat_completion :: "env \<Rightarrow> string \<Rightarrow> exn + string" where
  "chat_completion w prompt =
     (case chat_create w (summary_request prompt) of
        Inl e \<Rightarrow> Inl e
      | Inr [] \<Rightarrow> Inl (Exn IndexError ''list index out of range'')
      | Inr (None # cs) \<Rightarrow>
          Inl (Exn AttributeError
            (quoted ''NoneType'' @ '' object has no attribute '' @ quoted ''strip''))
      | Inr (Some content # cs) \<Rightarrow> Inr (py_strip content))"

text \<open>One round of the loop of lines 173 to 176: three lines added to \<open>summary\<close>.\<close>

definition fallback_entry :: "env \<Rightarrow> nat \<Rightarrow> NewsArticle \<Rightarrow> string" where
  "fallback_entry w i a =
     (show_nat i @ ''. '' @ py_str w (title a) @ nl)
       @ (''   '' @ py_str w (description a) @ nl)
       @ (''   Source: '' @ py_str w (source a) @ nl @ nl)"

fun fallback_loop :: "env \<Rightarrow> (nat \<times> NewsArticle) list \<Rightarrow> string \<Rightarrow> string" where
  "fallback_loop w [] summary = summary"
| "fallback_loop w ((i, a) # rest) summary =
     fallback_loop w rest (summary @ fallback_entry w i a)"

definition generate_fallback_summary :: "env \<Rightarrow> NewsArticle list \<Rightarrow> string" where
  "generate_fallback_summary w articles =
     fallback_loop w (enumerate 1 (take 10 articles))
       (''TOP 10 NEWS - '' @ strftime_long (now_fallback w) @ nl @ nl)"

text \<open>
  \<^verbatim>\<open>generate_news_summary\<close> (lines 120 to 167). Nothing outside the \<^verbatim>\<open>try\<close> can raise,
  and \<^verbatim>\<open>except Exception\<close> takes everything the \<^verbatim>\<open>try\<close> raises, so the function
  always returns a text.
\<close>

definition generate_news_summary :: "env \<Rightarrow> NewsArticle list \<Rightarrow> event list \<times> string" where
  "generate_news_summary w articles =
     (if articles = [] then ([], ''No news articles available at this time.'')
      else
        (let prompt = prompt_text w articles in
         case chat_completion w prompt of
           Inr text \<Rightarrow> ([ChatCreate (summary_request prompt)], text)
         | Inl e \<Rightarrow>
             ([ChatCreate (summary_request prompt),
               Log ERROR (''Error generating summary with OpenAI: '' @ exc_str e)],
              generate_fallback_summary w articles)))"

section \<open>The persistence writer\<close>

text \<open>
  \<^verbatim>\<open>save_summary\<close> (lines 180 to 192): an \<^verbatim>\<open>IOError\<close> of the write is logged, any
  other exception leaves the function.
\<close>

definition summary_filename :: "env \<Rightarrow> string" where
  "summary_filename w = ''news_summary_'' @ strftime_stamp (now_save w) @ ''.txt''"

definition save_summary :: "env \<Rightarrow> string \<Rightarrow> event list \<times> (exn + unit)" where
  "save_summary w summary =
     (let filename = summary_filename w in
      case file_write w filename summary of
        None \<Rightarrow>
          ([FileWrite filename summary, Log INFO (''Summary saved to '' @ filename)], Inr ())
      | Some e \<Rightarrow>
          if is_IOError e
          then ([FileWrite filename summary,
                 Log ERROR (''Error saving summary: '' @ exc_str e)], Inr ())
          else ([FileWrite filename summary], Inl e))"

section \<open>The pipeline and the scheduler loop\<close>

text \<open>
  \<^verbatim>\<open>run_news_update\<close> (lines 194 to 213): fetch with the default limit 20, summarize,
  print, save. An exception of a step ends the run and goes to the caller.
\<close>

definition run_news_update :: "env \<Rightarrow> NewsAggregator \<Rightarrow> event list \<times> (exn + unit)" where
  "run_news_update w self =
     (case fetch_news_articles w self 20 of
        (t1, Inl e) \<Rightarrow> (Log INFO ''Starting news update...'' # t1, Inl e)
      | (t1, Inr articles) \<Rightarrow>
          (case generate_news_summary w articles of
             (t2, summary) \<Rightarrow>
               (let shown =
                      [Print (nl @ replicate 60 CHR ''=''), Print summary,
                       Print (replicate 60 CHR ''='' @ nl)];
                    before_save =
                      Log INFO ''Starting news update...'' # t1
                        @ [Log INFO (''Fetched '' @ show_nat (length articles) @ '' articles'')]
                        @ t2 @ shown
                in case save_summary w summary of
                     (t3, Inl e) \<Rightarrow> (before_save @ t3, Inl e)
                   | (t3, Inr u) \<Rightarrow>
                       (before_save @ t3 @ [Log INFO ''News update completed''], Inr ()))))"

text \<open>\<^verbatim>\<open>NewsAggregator.__init__\<close> (lines 41 to 57).\<close>

definition NewsAggregator_init :: "config \<Rightarrow> event list \<times> (exn + NewsAggregator)" where
  "NewsAggregator_init cfg =
     (let warned =
            (if \<not> key_set (NEWS_API_KEY cfg)
             then [Log WARNING ''NEWS_API_KEY not found. Using mock data mode.'']
             else [])
      in if \<not> key_set (OPENAI_API_KEY cfg)
         then (warned, Inl (Exn ValueError ''OPENAI_API_KEY environment variable is required''))
         else (warned,
               Inr \<lparr>news_api_key = NEWS_API_KEY cfg,
                    openai_api_key = OPENAI_API_KEY cfg,
                    news_base_url = ''https://newsapi.org/v2'',
                    categories = [''business'', ''technology'', ''consumer goods'']\<rparr>))"

text \<open>
  The loop of lines 240 to 247. Each round calls \<^verbatim>\<open>schedule.run_pending()\<close> and sleeps a
  minute; \<open>Idle\<close> is a round in which the job is not due, \<open>Due w\<close> one in which it
  runs, in the outside world \<open>w\<close>. The list holds the rounds before the operator's
  interrupt, which ends the loop (a process that is never interrupted loops for ever
  and has no finite list). An exception of the job leaves \<^verbatim>\<open>run_pending\<close> and the
  loop (only the interrupt is caught).
\<close>

datatype tick = Idle | Due env

fun scheduler_loop :: "NewsAggregator \<Rightarrow> tick list \<Rightarrow> event list \<times> exn option" where
  "scheduler_loop self [] =
     ([Print (nl @ ''News Aggregator stopped.''),
       Log INFO ''News Aggregator stopped by user''], None)"
| "scheduler_loop self (Idle # ticks) =
     (case scheduler_loop self ticks of (tr, r) \<Rightarrow> (Sleep 60000 # tr, r))"
| "scheduler_loop self (Due w # ticks) =
     (case run_news_update w self of
        (t1, Inl e) \<Rightarrow> (t1, Some e)
      | (t1, Inr u) \<Rightarrow>
          (case scheduler_loop self ticks of (tr, r) \<Rightarrow> (t1 @ Sleep 60000 # tr, r)))"

text \<open>
  \<^verbatim>\<open>main\<close> (lines 215 to 247): \<open>w0\<close> is the outside world of the run at startup. The
  result is the exception that ends the process, if any.
\<close>

definition main :: "config \<Rightarrow> env \<Rightarrow> tick list \<Rightarrow> event list \<times> exn option" where
  "main cfg w0 ticks =
     (if \<not> key_set (OPENAI_API_KEY cfg)
      then ([Print ''Error: Please set your OPENAI_API_KEY environment variable'',
             Print ''You can get an API key from: https://openai.com/''], None)
      else
        (case NewsAggregator_init cfg of
           (t0, Inl e) \<Rightarrow> (t0, Some e)
         | (t0, Inr aggregator) \<Rightarrow>
             (let banner =
                    [Print ''News Aggregator Starting...'',
                     Print ''Scheduling news updates every 4 hours'',
                     Print ''Press Ctrl+C to stop'']
              in case run_news_update w0 aggregator of
                   (t1, Inl e) \<Rightarrow> (t0 @ banner @ t1, Some e)
                 | (t1, Inr u) \<Rightarrow>
                     (case scheduler_loop aggregator ticks of
                        (t2, r) \<Rightarrow> (t0 @ banner @ t1 @ t2, r)))))"

text \<open>The pipeline runs a trace shows: each run starts with the same log entry.\<close>

definition pipeline_runs :: "event list \<Rightarrow> nat" where
  "pipeline_runs tr = length (filter (\<lambda>ev. ev = Log INFO ''Starting news update...'') tr)"

definition issued_requests :: "event list \<Rightarrow> http_request list" where
  "issued_requests tr = concat (map (\<lambda>ev. case ev of HttpGet r \<Rightarrow> [r] | _ \<Rightarrow> []) tr)"

definition chat_calls :: "event list \<Rightarrow> chat_request list" where
  "chat_calls tr = concat (map (\<lambda>ev. case ev of ChatCreate r \<Rightarrow> [r] | _ \<Rightarrow> []) tr)"

section \<open>The upstream response, read as the interface describes it\<close>

text \<open>
  The interface expects a JSON object with an \<^verbatim>\<open>articles\<close> array of objects that hold
  \<^verbatim>\<open>title\<close>, \<^verbatim>\<open>description\<close>, \<^verbatim>\<open>url\<close>, \<^verbatim>\<open>publishedAt\<close> and a nested
  \<^verbatim>\<open>source.name\<close>. These definitions read a body that way, without the loop and without
  exceptions; the theorems below compare the adapter with them.
\<close>

definition field :: "pyval \<Rightarrow> string \<Rightarrow> pyval" where
  "field a k =
     (case a of
        PDict kvs \<Rightarrow> (case map_of kvs k of Some v \<Rightarrow> v | None \<Rightarrow> PNone)
      | _ \<Rightarrow> PNone)"

definition has_key :: "pyval \<Rightarrow> string \<Rightarrow> bool" where
  "has_key a k = (case a of PDict kvs \<Rightarrow> map_of kvs k \<noteq> None | _ \<Rightarrow> False)"

definition is_dict :: "pyval \<Rightarrow> bool" where
  "is_dict a = (case a of PDict kvs \<Rightarrow> True | _ \<Rightarrow> False)"

text \<open>An article has a title and a description when both are present and not empty.\<close>

definition has_title_and_description :: "pyval \<Rightarrow> bool" where
  "has_title_and_description a = (truthy (field a ''title'') \<and> truthy (field a ''description''))"

text \<open>An article object that carries the three other fields the adapter reads.\<close>

definition complete_article :: "pyval \<Rightarrow> bool" where
  "complete_article a =
     (is_dict a \<and> has_key a ''url'' \<and> has_key a ''publishedAt''
        \<and> has_key a ''source'' \<and> has_key (field a ''source'') ''name'')"

definition normalized :: "pyval \<Rightarrow> NewsArticle" where
  "normalized a =
     \<lparr>title = field a ''title'', description = field a ''description'',
      url = field a ''url'', published_at = field a ''publishedAt'',
      source = field (field a ''source'') ''name''\<rparr>"

text \<open>
  The articles of a response, and a response of the expected shape: an object whose
  \<^verbatim>\<open>articles\<close>, when it has any, is an array of complete article objects.
\<close>

definition upstream_articles :: "exn + pyval \<Rightarrow> pyval list" where
  "upstream_articles r =
     (case r of
        Inr (PDict kvs) \<Rightarrow>
          (case map_of kvs ''articles'' of Some (PList items) \<Rightarrow> items | _ \<Rightarrow> [])
      | _ \<Rightarrow> [])"

definition expected_response :: "exn + pyval \<Rightarrow> bool" where
  "expected_response r =
     (case r of
        Inr (PDict kvs) \<Rightarrow>
          (case map_of kvs ''articles'' of
             None \<Rightarrow> True
           | Some (PList items) \<Rightarrow> list_all complete_article items
           | Some v \<Rightarrow> False)
      | _ \<Rightarrow> False)"



text \<open>
  What the categories \<open>cs\<close> yield when every response has the expected shape: for each
  category in turn, its articles that have a title and a description, normalized, in
  upstream order. \<open>round_trace\<close> is the effect trace of such rounds.
\<close>

definition live_articles ::
  "env \<Rightarrow> NewsAggregator \<Rightarrow> string \<Rightarrow> int \<Rightarrow> string list \<Rightarrow> NewsArticle list" where
  "live_articles w self key limit cs =
     concat (map (\<lambda>c. map normalized (filter has_title_and_description
        (upstream_articles (requests_get w (category_request self key limit c))))) cs)"

definition round_trace :: "NewsAggregator \<Rightarrow> string \<Rightarrow> int \<Rightarrow> string list \<Rightarrow> event list" where
  "round_trace self key limit cs =
     concat (map (\<lambda>c. [HttpGet (category_request self key limit c), Sleep 100]) cs)"

section \<open>Sample worlds\<close>

text \<open>Concrete outside worlds, on which the theorems below are instantiated.\<close>

definition sample_date :: datetime where
  "sample_date = \<lparr>year = 2024, month = 1, day = 15, hour = 10, minute = 0, second = 0\<rparr>"

text \<open>A world whose chat service and file system both fail; the news API is \<open>handler\<close>.\<close>

definition failing_env :: "(http_request \<Rightarrow> exn + pyval) \<Rightarrow> env" where
  "failing_env handler =
     \<lparr>requests_get = handler,
      chat_create = (\<lambda>r. Inl (Exn OtherException ''quota exceeded'')),
      file_write = (\<lambda>name text. Some (Exn IOError ''disk full'')),
      now_prompt = sample_date, now_fallback = sample_date, now_save = sample_date,
      py_repr = (\<lambda>v. ''[...]'')\<rparr>"

definition unreachable :: "http_request \<Rightarrow> exn + pyval" where
  "unreachable r = Inl (Exn RequestException ''connection refused'')"

definition sample_aggregator :: "string option \<Rightarrow> NewsAggregator" where
  "sample_aggregator key =
     \<lparr>news_api_key = key, openai_api_key = Some ''sk-test'',
      news_base_url = ''https://newsapi.org/v2'',
      categories = [''business'', ''technology'', ''consumer goods'']\<rparr>"

text \<open>Article objects and bodies as the news API sends them.\<close>

definition story :: "string \<Rightarrow> pyval" where
  "story name =
     PDict [(''source'', PDict [(''id'', PNone), (''name'', PStr ''Newswire'')]),
            (''author'', PNone),
            (''title'', PStr name),
            (''description'', PStr ''Details follow.''),
            (''url'', PStr ''https://example.com/story''),
            (''publishedAt'', PStr ''2024-01-15T08:00:00Z'')]"


definition stories :: "nat \<Rightarrow> pyval list" where
  "stories n = map (\<lambda>i. story (''Story '' @ show_nat i)) [1 ..< Suc n]"

definition body_of :: "pyval list \<Rightarrow> pyval" where
  "body_of items =
     PDict [(''status'', PStr ''ok''), (''totalResults'', PInt (int (length items))),
            (''articles'', PList items)]"

text \<open>An article with a title and a description, but none of the other fields.\<close>

definition incomplete_body :: pyval where
  "incomplete_body =
     body_of [PDict [(''title'', PStr ''Rates held''),
                     (''description'', PStr ''The central bank kept rates unchanged.'')]]"

text \<open>
  Two news APIs: one answers every request with the same body, the other has articles
  for the category \<^verbatim>\<open>business\<close> only.
\<close>

definition serve :: "pyval \<Rightarrow> http_request \<Rightarrow> exn + pyval" where
  "serve body r = Inr body"

definition business_only :: "pyval list \<Rightarrow> http_request \<Rightarrow> exn + pyval" where
  "business_only items r =
     (if category r = ''business'' then Inr (body_of items) else Inr (body_of []))"

section \<open>Properties\<close>

subsection \<open>Counting effects\<close>

lemma pipeline_runs_append: "pipeline_runs (a @ b) = pipeline_runs a + pipeline_runs b"
  by (simp add: pipeline_runs_def)

lemma pipeline_runs_Print: "pipeline_runs (Print s # tr) = pipeline_runs tr"
  by (simp add: pipeline_runs_def)

text \<open>Every pipeline run is counted: its trace starts with the entry that is counted.\<close>

lemma run_news_update_counted: "1 \<le> pipeline_runs (fst (run_news_update w self))"
  by (simp add: run_news_update_def pipeline_runs_def Let_def split: prod.splits sum.splits)

text \<open>With the chat credential set, the startup run takes place.\<close>

lemma main_runs_at_startup:
  assumes "key_set (OPENAI_API_KEY cfg)"
  shows "1 \<le> pipeline_runs (fst (main cfg w0 ticks))"
proof -
  obtain t0 agg where init: "NewsAggregator_init cfg = (t0, Inr agg)"
    using assms by (simp add: NewsAggregator_init_def Let_def)
  obtain t1 r where run: "run_news_update w0 agg = (t1, r)"
    by (cases "run_news_update w0 agg")
  have "1 \<le> pipeline_runs t1"
    using run_news_update_counted [of w0 agg] run by simp
  then show ?thesis
    using assms init run
    by (cases r; cases "scheduler_loop agg ticks")
       (simp_all add: main_def pipeline_runs_append pipeline_runs_Print)
qed

subsection \<open>Offline mode\<close>

text \<open>
  Claim C3. Whenever the news credential is absent (not set, or set to the empty text),
  \<open>fetch_news_articles\<close> returns exactly the fixed mock articles, whatever the limit and
  whatever the outside world would answer, and its trace is empty: no request is issued.
\<close>

theorem fetch_without_credential:
  assumes "\<not> key_set (news_api_key self)"
  shows "fetch_news_articles w self limit = ([], Inr get_mock_articles)
         \<and> issued_requests (fst (fetch_news_articles w self limit)) = []"
  using assms
  by (cases "news_api_key self") (simp_all add: fetch_news_articles_def issued_requests_def)

theorem fetch_without_credential_witness:
  "\<not> key_set (news_api_key (sample_aggregator None))
   \<and> fetch_news_articles (failing_env unreachable) (sample_aggregator None) 20
       = ([], Inr get_mock_articles)
   \<and> issued_requests
        (fst (fetch_news_articles (failing_env unreachable) (sample_aggregator None) 20)) = []"
  using fetch_without_credential [of "sample_aggregator None" "failing_env unreachable" 20]
  by (simp add: sample_aggregator_def issued_requests_def)

subsection \<open>The summarizer on no articles\<close>

text \<open>
  Claim C6. For the empty article list \<open>generate_news_summary\<close> returns the fixed text
  "No news articles available at this time." and its trace is empty: the chat service
  is not called.
\<close>

theorem summarize_empty:
  "generate_news_summary w [] = ([], ''No news articles available at this time.'')
   \<and> chat_calls (fst (generate_news_summary w [])) = []"
  by (simp add: generate_news_summary_def chat_calls_def)

theorem summarize_empty_witness:
  "generate_news_summary (failing_env unreachable) []
     = ([], ''No news articles available at this time.'')"
  using summarize_empty [of "failing_env unreachable"] by simp

subsection \<open>The persistence writer\<close>

lemma save_summary_success:
  assumes "file_write w (summary_filename w) summary = None"
  shows "save_summary w summary =
           ([FileWrite (summary_filename w) summary,
             Log INFO (''Summary saved to '' @ summary_filename w)], Inr ())"
  using assms by (simp add: save_summary_def Let_def)



subsection \<open>Startup without the chat credential\<close>

text \<open>
  Claim C8. Whenever the chat credential is missing (not set, or empty), \<open>main\<close> prints
  the two lines of the configuration error and returns: its trace holds nothing else,
  so no pipeline run takes place and the scheduler loop is not entered, whatever the
  outside world and however many rounds the loop would have had.
\<close>

theorem main_without_chat_credential:
  assumes "\<not> key_set (OPENAI_API_KEY cfg)"
  shows "main cfg w0 ticks =
           ([Print ''Error: Please set your OPENAI_API_KEY environment variable'',
             Print ''You can get an API key from: https://openai.com/''], None)
         \<and> pipeline_runs (fst (main cfg w0 ticks)) = 0"
  using assms by (simp add: main_def pipeline_runs_def)

theorem main_without_chat_credential_witness:
  "\<not> key_set (OPENAI_API_KEY \<lparr>NEWS_API_KEY = Some ''news-key'', OPENAI_API_KEY = None\<rparr>)
   \<and> main \<lparr>NEWS_API_KEY = Some ''news-key'', OPENAI_API_KEY = None\<rparr>
        (failing_env unreachable) [Idle, Due (failing_env unreachable)]
       = ([Print ''Error: Please set your OPENAI_API_KEY environment variable'',
           Print ''You can get an API key from: https://openai.com/''], None)
   \<and> pipeline_runs
        (fst (main \<lparr>NEWS_API_KEY = Some ''news-key'', OPENAI_API_KEY = None\<rparr>
                (failing_env unreachable) [Idle, Due (failing_env unreachable)])) = 0"
  using main_without_chat_credential
    [of "\<lparr>NEWS_API_KEY = Some ''news-key'', OPENAI_API_KEY = None\<rparr>"
        "failing_env unreachable" "[Idle, Due (failing_env unreachable)]"]
  by (simp add: pipeline_runs_def)

subsection \<open>The requests of the adapter\<close>

lemma issued_requests_append: "issued_requests (a @ b) = issued_requests a @ issued_requests b"
  by (simp add: issued_requests_def)

lemma issued_requests_simps [simp]:
  "issued_requests [] = []"
  "issued_requests (HttpGet r # tr) = r # issued_requests tr"
  "issued_requests (Log l s # tr) = issued_requests tr"
  "issued_requests (Sleep n # tr) = issued_requests tr"
  by (simp_all add: issued_requests_def)

lemma fetch_category_requests:
  "issued_requests (fst (fetch_category w self key limit c acc))
     = [category_request self key limit c]"
  by (simp add: fetch_category_def Let_def split: sum.splits)

lemma fetch_loop_requests:
  "set (issued_requests (fst (fetch_loop w self key limit cs acc)))
     \<subseteq> category_request self key limit ` set cs"
proof (induction cs arbitrary: acc)
  case Nil
  then show ?case by simp
next
  case (Cons c cs)
  obtain tr r where fc: "fetch_category w self key limit c acc = (tr, r)"
    by (cases "fetch_category w self key limit c acc")
  have tr: "issued_requests tr = [category_request self key limit c]"
    using fetch_category_requests [of w self key limit c acc] fc by simp
  show ?case
  proof (cases r)
    case (Inl e)
    then show ?thesis using fc tr by simp
  next
    case (Inr acc')
    obtain tr' r' where fl: "fetch_loop w self key limit cs acc' = (tr', r')"
      by (cases "fetch_loop w self key limit cs acc'")
    have "set (issued_requests tr') \<subseteq> category_request self key limit ` set cs"
      using Cons.IH [of acc'] fl by simp
    then show ?thesis using fc tr Inr fl by (auto simp: issued_requests_append)
  qed
qed

lemma fetch_loop_first_request:
  assumes "cs \<noteq> []"
  shows "issued_requests (fst (fetch_loop w self key limit cs acc)) \<noteq> []"
proof -
  from assms obtain c cs' where cs: "cs = c # cs'"
    by (cases cs) auto
  obtain tr r where fc: "fetch_category w self key limit c acc = (tr, r)"
    by (cases "fetch_category w self key limit c acc")
  have tr: "issued_requests tr = [category_request self key limit c]"
    using fetch_category_requests [of w self key limit c acc] fc by simp
  show ?thesis using cs fc tr
    by (cases r) (auto simp: issued_requests_append split: prod.splits)
qed

lemma fetch_requests:
  assumes "news_api_key self = Some key" and "key \<noteq> []"
  shows "issued_requests (fst (fetch_news_articles w self limit))
         = issued_requests (fst (fetch_loop w self key limit (categories self) []))"
  using assms
  by (simp add: fetch_news_articles_def issued_requests_append split: prod.splits sum.splits)

text \<open>The constructor fixes the three categories.\<close>

lemma init_categories:
  assumes "NewsAggregator_init cfg = (tr, Inr self)"
  shows "categories self = [''business'', ''technology'', ''consumer goods'']"
  using assms by (auto simp: NewsAggregator_init_def Let_def split: if_splits)

text \<open>
  Claim C10, amended. With the news credential set and three categories, at least one
  request is issued, and every request the adapter issues asks for \<open>limit div 3\<close>
  articles, the quotient rounded down; for every limit from 0 to 2 that page size is 0.
  (Rounding down makes the page size of a negative limit negative, not 0.)
\<close>

theorem page_size_per_category:
  assumes "key_set (news_api_key self)" and "length (categories self) = 3"
  shows "issued_requests (fst (fetch_news_articles w self limit)) \<noteq> []
         \<and> (\<forall>r \<in> set (issued_requests (fst (fetch_news_articles w self limit))).
               pageSize r = limit div 3 \<and> (0 \<le> limit \<and> limit < 3 \<longrightarrow> pageSize r = 0))"
proof -
  from assms(1) obtain key where key: "news_api_key self = Some key" "key \<noteq> []"
    by (cases "news_api_key self") auto
  have cs: "categories self \<noteq> []"
    using assms(2) by auto
  have eq: "issued_requests (fst (fetch_news_articles w self limit))
         = issued_requests (fst (fetch_loop w self key limit (categories self) []))"
    by (rule fetch_requests [OF key])
  have ne: "issued_requests (fst (fetch_news_articles w self limit)) \<noteq> []"
    unfolding eq by (rule fetch_loop_first_request [OF cs])
  have "pageSize r = limit div 3"
    if "r \<in> set (issued_requests (fst (fetch_news_articles w self limit)))" for r
  proof -
    from that eq fetch_loop_requests [of w self key limit "categories self" "[]"]
    obtain c where "r = category_request self key limit c"
      by auto
    then show ?thesis
      using assms(2) by (simp add: category_request_def)
  qed
  then show ?thesis
    using ne by auto
qed

theorem page_size_per_category_witness:
  "key_set (news_api_key (sample_aggregator (Some ''news-key'')))
   \<and> length (categories (sample_aggregator (Some ''news-key''))) = 3
   \<and> issued_requests (fst (fetch_news_articles (failing_env (serve (body_of [])))
          (sample_aggregator (Some ''news-key'')) 2)) \<noteq> []
   \<and> list_all (\<lambda>r. pageSize r = 0)
        (issued_requests (fst (fetch_news_articles (failing_env (serve (body_of [])))
           (sample_aggregator (Some ''news-key'')) 2)))"
proof -
  have key: "key_set (news_api_key (sample_aggregator (Some ''news-key'')))"
    by (simp add: sample_aggregator_def)
  have three: "length (categories (sample_aggregator (Some ''news-key''))) = 3"
    by (simp add: sample_aggregator_def)
  show ?thesis
    using page_size_per_category [OF key three, of "failing_env (serve (body_of []))" 2] key three
    by (simp add: list_all_iff)
qed

text \<open>
  The claim as stated fails below 0: for the limit \<open>- 1\<close> the three requests ask for
  \<open>- 1\<close> articles each.
\<close>

theorem negative_limit_page_size:
  "map pageSize
     (issued_requests (fst (fetch_news_articles (failing_env (serve (body_of [])))
        (sample_aggregator (Some ''news-key'')) (- 1))))
   = [- 1, - 1, - 1]"
  by (simp add: fetch_news_articles_def sample_aggregator_def fetch_category_def
      category_request_def failing_env_def serve_def body_of_def bind_exn_def
      py_slice_to_def Let_def)

subsection \<open>The size of the adapter's result\<close>

lemma length_py_slice_to: "0 \<le> n \<Longrightarrow> int (length (py_slice_to xs n)) \<le> n"
  by (simp add: py_slice_to_def)

text \<open>
  Claim C2, amended. For every limit \<open>\<ge> 0\<close> and every outside world, a list that
  \<open>fetch_news_articles\<close> returns is the fixed mock sequence or has at most \<open>limit\<close>
  entries; the mock sequence has two entries and is returned as it is, so the result
  has at most \<open>max limit 2\<close> entries.
\<close>

theorem fetch_result_size:
  assumes "0 \<le> limit" and "snd (fetch_news_articles w self limit) = Inr arts"
  shows "(arts = get_mock_articles \<or> int (length arts) \<le> limit)
         \<and> int (length arts) \<le> max limit 2"
proof -
  have "arts = get_mock_articles \<or> int (length arts) \<le> limit"
    using assms
    by (auto simp: fetch_news_articles_def length_py_slice_to
          split: option.splits if_splits prod.splits sum.splits)
  moreover have "length get_mock_articles = 2"
    by (simp add: get_mock_articles_def)
  ultimately show ?thesis
    by auto
qed

text \<open>
  The claim as stated fails on the mock path: without a credential and with the limit 1
  the result is the mock sequence, which has two entries.
\<close>

theorem mock_articles_exceed_limit:
  "snd (fetch_news_articles (failing_env unreachable) (sample_aggregator None) 1)
     = Inr get_mock_articles
   \<and> length get_mock_articles = 2"
  by (simp add: fetch_news_articles_def sample_aggregator_def get_mock_articles_def)

subsection \<open>What the adapter keeps of a response\<close>

text \<open>
  One element of the \<^verbatim>\<open>articles\<close> array: a complete article object is appended, in its
  normalized form, exactly when it has a title and a description; an article object
  without one of them is skipped, whatever else it holds.
\<close>

lemma article_entry_complete:
  assumes "complete_article a"
  shows "article_entry a = Inr (if has_title_and_description a then Some (normalized a) else None)"
proof -
  from assms obtain kvs where a: "a = PDict kvs"
    by (cases a) (auto simp: complete_article_def is_dict_def)
  from assms a obtain u p s where u: "map_of kvs ''url'' = Some u"
    and p: "map_of kvs ''publishedAt'' = Some p" and s: "map_of kvs ''source'' = Some s"
    by (auto simp: complete_article_def has_key_def)
  from assms a s obtain skvs n where sd: "s = PDict skvs" and n: "map_of skvs ''name'' = Some n"
    by (cases s) (auto simp: complete_article_def has_key_def field_def)
  show ?thesis
    by (cases "map_of kvs ''title''"; cases "map_of kvs ''description''")
       (simp_all add: a u p s sd n article_entry_def bind_exn_def has_title_and_description_def
          normalized_def field_def)
qed


lemma append_articles_complete:
  "list_all complete_article items \<Longrightarrow>
   append_articles items acc = Inr (acc @ map normalized (filter has_title_and_description items))"
  by (induction items arbitrary: acc) (simp_all add: article_entry_complete)


text \<open>One round, then the whole loop, on responses of the expected shape.\<close>

lemma fetch_category_expected:
  assumes "expected_response (requests_get w (category_request self key limit c))"
  shows "fetch_category w self key limit c acc =
           ([HttpGet (category_request self key limit c), Sleep 100],
            Inr (acc @ map normalized (filter has_title_and_description
              (upstream_articles (requests_get w (category_request self key limit c))))))"
  using assms
  by (auto simp: fetch_category_def expected_response_def upstream_articles_def bind_exn_def
        append_articles_complete Let_def split: sum.splits pyval.splits option.splits)



lemma fetch_loop_expected:
  "\<forall>c \<in> set cs. expected_response (requests_get w (category_request self key limit c)) \<Longrightarrow>
   fetch_loop w self key limit cs acc =
     (round_trace self key limit cs, Inr (acc @ live_articles w self key limit cs))"
  by (induction cs arbitrary: acc)
     (simp_all add: live_articles_def round_trace_def fetch_category_expected)


lemma fetch_news_articles_expected:
  assumes "news_api_key self = Some key" and "key \<noteq> []"
    and "\<forall>c \<in> set (categories self).
           expected_response (requests_get w (category_request self key limit c))"
  shows "fetch_news_articles w self limit =
           (round_trace self key limit (categories self),
            Inr (py_slice_to (live_articles w self key limit (categories self)) limit))"
  using assms(1,2) fetch_loop_expected [OF assms(3), of "[]"]
  by (simp add: fetch_news_articles_def)

text \<open>The sample articles and the sample news API.\<close>

lemma complete_story: "complete_article (story name)"
  by (simp add: complete_article_def story_def is_dict_def has_key_def field_def)

lemma story_has_both: "has_title_and_description (story name) = (name \<noteq> [])"
  by (simp add: has_title_and_description_def story_def field_def)

lemma expected_business_only:
  "list_all complete_article items \<Longrightarrow> expected_response (business_only items r)"
  by (simp add: expected_response_def business_only_def body_of_def)

lemma upstream_business_only:
  "upstream_articles (business_only items r) = (if category r = ''business'' then items else [])"
  by (simp add: upstream_articles_def business_only_def body_of_def)







text \<open>A run of the adapter on a live response that the limit 1 truncates.\<close>

theorem fetch_result_size_witness:
  "(0::int) \<le> 1
   \<and> snd (fetch_news_articles (failing_env (business_only [story ''First'', story ''Second'']))
          (sample_aggregator (Some ''news-key'')) 1)
       = Inr [normalized (story ''First'')]
   \<and> int (length [normalized (story ''First'')]) \<le> max 1 2"
proof -
  let ?items = "[story ''First'', story ''Second'']"
  let ?w = "failing_env (business_only ?items)"
  let ?self = "sample_aggregator (Some ''news-key'')"
  have rq: "requests_get ?w = business_only ?items"
    by (simp add: failing_env_def)
  have key: "news_api_key ?self = Some ''news-key''" "''news-key'' \<noteq> []"
    by (simp_all add: sample_aggregator_def)
  have expected: "\<forall>c \<in> set (categories ?self).
           expected_response (requests_get ?w (category_request ?self ''news-key'' 1 c))"
    by (simp add: rq expected_business_only complete_story)
  have result: "snd (fetch_news_articles ?w ?self 1) = Inr [normalized (story ''First'')]"
    using fetch_news_articles_expected [OF key expected]
    by (simp add: live_articles_def rq upstream_business_only sample_aggregator_def
          category_request_def story_has_both py_slice_to_def)
  have limit: "(0::int) \<le> 1"
    by simp
  show ?thesis
    using fetch_result_size [OF limit result] result by simp
qed

subsection \<open>Where the mock articles come from\<close>










subsection \<open>The fallback summary\<close>

lemma fallback_loop_concat:
  "fallback_loop w ps summary = summary @ concat (map (\<lambda>(i, a). fallback_entry w i a) ps)"
  by (induction ps arbitrary: summary) auto

text \<open>A failure of the chat call itself is a failure of the \<^verbatim>\<open>try\<close> block.\<close>

lemma chat_create_fails:
  "chat_create w (summary_request prompt) = Inl e \<Longrightarrow> chat_completion w prompt = Inl e"
  by (simp add: chat_completion_def)

text \<open>
  Whatever the \<^verbatim>\<open>try\<close> block raises (the call itself, an answer without choices, a
  choice without content), the summarizer answers with the fallback summary.
\<close>

lemma fallback_when_try_raises:
  assumes "articles \<noteq> []" and "chat_completion w (prompt_text w articles) = Inl e"
  shows "generate_news_summary w articles =
           ([ChatCreate (summary_request (prompt_text w articles)),
             Log ERROR (''Error generating summary with OpenAI: '' @ exc_str e)],
            generate_fallback_summary w articles)"
  using assms by (simp add: generate_news_summary_def Let_def)

text \<open>
  Claim C4. For every article list that is not empty, when the chat call raises, with
  any exception \<open>e\<close>, \<open>generate_news_summary\<close> returns the fallback summary: the header
  line \<^verbatim>\<open>TOP 10 NEWS - \<close> with the current date and an empty line, then one entry for
  each of the first ten articles at most, in input order, numbered from 1, that holds
  the article's title, description and source as \<^verbatim>\<open>str()\<close> prints them (a text field
  is printed as it is: \<open>py_str w (PStr s) = s\<close>).
\<close>

theorem fallback_summary_on_chat_failure:
  assumes "articles \<noteq> []"
    and "chat_create w (summary_request (prompt_text w articles)) = Inl e"
  shows "snd (generate_news_summary w articles) =
           ''TOP 10 NEWS - '' @ strftime_long (now_fallback w) @ nl @ nl
             @ concat (map (\<lambda>(i, a).
                   show_nat i @ ''. '' @ py_str w (title a) @ nl
                     @ ''   '' @ py_str w (description a) @ nl
                     @ ''   Source: '' @ py_str w (source a) @ nl @ nl)
                 (zip [1 ..< Suc (length (take 10 articles))] (take 10 articles)))
         \<and> length (take 10 articles) \<le> 10"
proof -
  have "chat_completion w (prompt_text w articles) = Inl e"
    using assms(2) by (rule chat_create_fails)
  then have "snd (generate_news_summary w articles) = generate_fallback_summary w articles"
    using assms(1) by (simp add: fallback_when_try_raises)
  moreover have "(\<lambda>(i, a). fallback_entry w i a) = (\<lambda>(i, a).
                   show_nat i @ ''. '' @ py_str w (title a) @ nl
                     @ ''   '' @ py_str w (description a) @ nl
                     @ ''   Source: '' @ py_str w (source a) @ nl @ nl)"
    by (simp add: fallback_entry_def fun_eq_iff)
  ultimately show ?thesis
    by (simp add: generate_fallback_summary_def fallback_loop_concat enumerate_eq_zip)
qed

theorem fallback_summary_on_chat_failure_witness:
  "snd (generate_news_summary (failing_env unreachable) get_mock_articles) =
     ''TOP 10 NEWS - January 15, 2024'' @ nl @ nl
       @ ''1. Tech Giants Report Strong Q3 Earnings'' @ nl
       @ ''   Major technology companies exceeded expectations in their quarterly reports.'' @ nl
       @ ''   Source: TechNews'' @ nl @ nl
       @ ''2. Global Markets Show Positive Momentum'' @ nl
       @ ''   Stock markets worldwide continue upward trend amid economic recovery.'' @ nl
       @ ''   Source: FinanceDaily'' @ nl @ nl"
proof -
  have ne: "get_mock_articles \<noteq> []"
    by (simp add: get_mock_articles_def)
  have fails: "chat_create (failing_env unreachable)
                 (summary_request (prompt_text (failing_env unreachable) get_mock_articles))
               = Inl (Exn OtherException ''quota exceeded'')"
    by (simp add: failing_env_def)
  have date: "strftime_long (now_fallback (failing_env unreachable)) = ''January 15, 2024''"
    by (simp add: strftime_long_def failing_env_def sample_date_def month_name_def
          month_names_def pad2_def show_nat.simps)
  have idx: "[1 ..< Suc (length (take 10 get_mock_articles))] = [1, 2]"
    by (simp add: get_mock_articles_def upt_rec)
  show ?thesis
    using fallback_summary_on_chat_failure [OF ne fails] date idx
    by (simp add: get_mock_articles_def show_nat.simps)
qed

subsection \<open>The pipeline run\<close>






text \<open>At startup the same response ends the process: the first run is not guarded.\<close>

lemma main_ends_on_incomplete_article:
  "snd (main \<lparr>NEWS_API_KEY = Some ''news-key'', OPENAI_API_KEY = Some ''sk-test''\<rparr>
          (failing_env (serve incomplete_body)) ticks)
     = Some (Exn KeyError (quoted ''url''))"
  by (simp add: main_def NewsAggregator_init_def run_news_update_def fetch_news_articles_def
      fetch_category_def failing_env_def serve_def incomplete_body_def body_of_def
      article_entry_def bind_exn_def Let_def)

end
